theory Spec2Isabelle
  imports Complex_Main "HOL-Library.AList"
begin

section \<open>Data model\<close>

text \<open>
  The exceptions the modelled code raises. Every \<^verbatim>\<open>raise\<close>, failed
  \<^verbatim>\<open>assert\<close> and failing library call of the source is a branch
  returning \<open>Inl\<close> of one of these.
\<close>

datatype error = IndexError | ValueError | TypeError | RuntimeError | AssertionError

text \<open>
  A graph batch (\<^verbatim>\<open>torch_geometric.data.Data\<close>) with the fields the trainer
  reads. Tensors are lists; the \<open>2 \<times> E\<close> tensor \<^verbatim>\<open>edge_index\<close> is a list of
  (source, destination) pairs, so that \<^verbatim>\<open>edge_index[0]\<close> is \<open>map fst\<close> and
  \<^verbatim>\<open>edge_index[1]\<close> is \<open>map snd\<close>. Node indices are natural numbers.
  Momenta are real numbers: rounding and the special values of floating point are not
  part of this record. The fields \<^verbatim>\<open>x\<close> and \<^verbatim>\<open>y\<close> are named
  \<open>data_x\<close> and \<open>data_y\<close>.
\<close>

record Data =
  data_x :: "real list list"
  data_y :: "real list"
  edge_index :: "(nat \<times> nat) list"
  edge_attr :: "real list list"
  pt :: "real list"
  particle_id :: "int list"
  reconstructable :: "int list"
  sector :: "int list"

text \<open>
  The invariant of a graph batch: every per-node tensor has one entry per node, every
  per-edge tensor one entry per edge, and every edge endpoint is a node of the batch.
\<close>

definition wf_batch :: "Data \<Rightarrow> bool" where
  "wf_batch data =
     (length (pt data) = length (data_x data) \<and>
      length (particle_id data) = length (data_x data) \<and>
      length (reconstructable data) = length (data_x data) \<and>
      length (sector data) = length (data_x data) \<and>
      length (data_y data) = length (edge_index data) \<and>
      length (edge_attr data) = length (edge_index data) \<and>
      list_all (\<lambda>e. fst e < length (data_x data) \<and> snd e < length (data_x data))
        (edge_index data))"

record TrainingTruthCutConfig =
  pt_thld :: real
  without_noise :: bool
  without_non_reconstructable :: bool

section \<open>Tensor operations used by the mask engine\<close>

text \<open>
  \<^verbatim>\<open>t[mask]\<close> with a boolean mask: the mask must have the shape of the tensor,
  and the entries under a true mask bit are kept in order.
\<close>

definition bool_index :: "'a list \<Rightarrow> bool list \<Rightarrow> error + 'a list" where
  "bool_index xs msk =
     (if length msk = length xs then Inr (map fst (filter snd (zip xs msk)))
      else Inl IndexError)"

text \<open>\<^verbatim>\<open>t[idx]\<close> with a tensor of indices: an index out of range raises.\<close>

definition int_index :: "'a list \<Rightarrow> nat list \<Rightarrow> error + 'a list" where
  "int_index xs idx =
     (if list_all (\<lambda>i. i < length xs) idx then Inr (map (\<lambda>i. xs ! i) idx)
      else Inl IndexError)"

text \<open>
  The in-place \<^verbatim>\<open>a &= b\<close> on boolean tensors: \<open>b\<close> has the shape of \<open>a\<close>, or it
  has one element that is broadcast; any other shape raises.
\<close>

definition iand :: "bool list \<Rightarrow> bool list \<Rightarrow> error + bool list" where
  "iand a b =
     (if length b = length a then Inr (map (\<lambda>p. fst p \<and> snd p) (zip a b))
      else if length b = 1 then Inr (map (\<lambda>v. v \<and> hd b) a)
      else Inl RuntimeError)"

text \<open>
  \<^verbatim>\<open>node_mask[noise_mask] &= data.pt[noise_mask] > pt_thld\<close>: both boolean
  indexings need a mask of the tensor's shape; the selected positions are and-ed with the
  comparison, the others keep their value.
\<close>

definition pt_cut :: "real \<Rightarrow> Data \<Rightarrow> bool list \<Rightarrow> error + bool list" where
  "pt_cut thld data node_mask =
     (let noise_mask = map (\<lambda>p. p > 0) (particle_id data) in
      if length noise_mask = length node_mask \<and> length noise_mask = length (pt data)
      then Inr (map (\<lambda>t. if fst (snd t) then fst t \<and> snd (snd t) > thld else fst t)
                  (zip node_mask (zip noise_mask (pt data))))
      else Inl IndexError)"

section \<open>Truth-cut mask engine\<close>



definition get_masks :: "TrainingTruthCutConfig \<Rightarrow> Data \<Rightarrow> error + (bool list \<times> bool list)" where
  "get_masks cfg data =
     (let node_mask = replicate (length (data_x data)) True in
      case (if pt_thld cfg > 0 then pt_cut (pt_thld cfg) data node_mask else Inr node_mask) of
        Inl e \<Rightarrow> Inl e
      | Inr node_mask \<Rightarrow>
          (case (if without_noise cfg
                 then iand node_mask (map (\<lambda>p. p > 0) (particle_id data))
                 else Inr node_mask) of
             Inl e \<Rightarrow> Inl e
           | Inr node_mask \<Rightarrow>
               (case (if without_non_reconstructable cfg
                      then iand node_mask (map (\<lambda>r. r > 0) (reconstructable data))
                      else Inr node_mask) of
                  Inl e \<Rightarrow> Inl e
                | Inr node_mask \<Rightarrow>
                    (case int_index node_mask (map fst (edge_index data)) of
                       Inl e \<Rightarrow> Inl e
                     | Inr m0 \<Rightarrow>
                         (case int_index node_mask (map snd (edge_index data)) of
                            Inl e \<Rightarrow> Inl e
                          | Inr m1 \<Rightarrow>
                              Inr (node_mask, map (\<lambda>p. fst p \<and> snd p) (zip m0 m1)))))))"

section \<open>Applying the masks\<close>

text \<open>
  \<^verbatim>\<open>np.arange(len(node_mask))[node_mask]\<close>: the indices of the surviving
  nodes, ascending; \<^verbatim>\<open>np.arange(node_mask.sum())\<close>: their new indices.
\<close>

definition old_edge_indices :: "bool list \<Rightarrow> nat list" where
  "old_edge_indices node_mask =
     map fst (filter snd (zip [0 ..< length node_mask] node_mask))"

definition new_edge_indices :: "bool list \<Rightarrow> nat list" where
  "new_edge_indices node_mask = [0 ..< length (filter (\<lambda>b. b) node_mask)]"

text \<open>\<^verbatim>\<open>dict(pairs)\<close>: a later pair with the same key replaces an earlier one.\<close>

definition py_dict :: "('k \<times> 'v) list \<Rightarrow> ('k \<rightharpoonup> 'v)" where
  "py_dict kvs = map_of (rev kvs)"

text \<open>
  \<^verbatim>\<open>dict(zip(old_edge_indices, new_edge_indices)).get\<close>: \<open>None\<close> is Python's
  \<^verbatim>\<open>None\<close>, returned for a key the dictionary does not have.
\<close>

definition edge_index_mapping :: "bool list \<Rightarrow> (nat \<rightharpoonup> nat)" where
  "edge_index_mapping node_mask =
     py_dict (zip (old_edge_indices node_mask) (new_edge_indices node_mask))"

text \<open>
  \<^verbatim>\<open>torch.from_numpy(np.vectorize(f)(xs))\<close> for a function \<open>f\<close> that may return
  \<^verbatim>\<open>None\<close>: \<^verbatim>\<open>np.vectorize\<close> without \<^verbatim>\<open>otypes\<close> refuses an
  input of size 0, and a \<^verbatim>\<open>None\<close> among the results cannot become an integer
  tensor.
\<close>

definition vectorize :: "('a \<Rightarrow> 'b option) \<Rightarrow> 'a list \<Rightarrow> error + 'b list" where
  "vectorize f xs =
     (if xs = [] then Inl ValueError
      else if list_all (\<lambda>v. f v \<noteq> None) xs then Inr (map (\<lambda>v. the (f v)) xs)
      else Inl TypeError)"

definition apply_mask :: "Data \<Rightarrow> bool list \<Rightarrow> bool list \<Rightarrow> error + Data" where
  "apply_mask data node_mask edge_mask =
     (case bool_index (map fst (edge_index data)) edge_mask of
        Inl e \<Rightarrow> Inl e
      | Inr src \<Rightarrow>
     (case vectorize (edge_index_mapping node_mask) src of
        Inl e \<Rightarrow> Inl e
      | Inr row0 \<Rightarrow>
     (case bool_index (map snd (edge_index data)) edge_mask of
        Inl e \<Rightarrow> Inl e
      | Inr dst \<Rightarrow>
     (case vectorize (edge_index_mapping node_mask) dst of
        Inl e \<Rightarrow> Inl e
      | Inr row1 \<Rightarrow>
     (case bool_index (data_x data) node_mask of
        Inl e \<Rightarrow> Inl e
      | Inr x' \<Rightarrow>
     (case bool_index (data_y data) edge_mask of
        Inl e \<Rightarrow> Inl e
      | Inr y' \<Rightarrow>
     (case bool_index (edge_attr data) edge_mask of
        Inl e \<Rightarrow> Inl e
      | Inr edge_attr' \<Rightarrow>
     (case bool_index (pt data) node_mask of
        Inl e \<Rightarrow> Inl e
      | Inr pt' \<Rightarrow>
     (case bool_index (particle_id data) node_mask of
        Inl e \<Rightarrow> Inl e
      | Inr particle_id' \<Rightarrow>
     (case bool_index (reconstructable data) node_mask of
        Inl e \<Rightarrow> Inl e
      | Inr reconstructable' \<Rightarrow>
     (case bool_index (sector data) node_mask of
        Inl e \<Rightarrow> Inl e
      | Inr sector' \<Rightarrow>
          Inr \<lparr>data_x = x', data_y = y', edge_index = zip row0 row1,
               edge_attr = edge_attr', pt = pt', particle_id = particle_id',
               reconstructable = reconstructable', sector = sector'\<rparr>)))))))))))"

section \<open>Loss values\<close>

text \<open>
  A scalar loss is a floating-point number. Of floating point, the model keeps what the
  divergence check depends on: the special values and how they propagate through sums and
  products. Finite arithmetic is exact (no rounding, no overflow).
\<close>

datatype fl = Finite real | PInf | NInf | NaN

fun fl_add :: "fl \<Rightarrow> fl \<Rightarrow> fl" where
  "fl_add NaN b = NaN"
| "fl_add a NaN = NaN"
| "fl_add (Finite a) (Finite b) = Finite (a + b)"
| "fl_add (Finite a) PInf = PInf"
| "fl_add (Finite a) NInf = NInf"
| "fl_add PInf (Finite b) = PInf"
| "fl_add NInf (Finite b) = NInf"
| "fl_add PInf PInf = PInf"
| "fl_add NInf NInf = NInf"
| "fl_add PInf NInf = NaN"
| "fl_add NInf PInf = NaN"

fun fl_mul :: "fl \<Rightarrow> fl \<Rightarrow> fl" where
  "fl_mul NaN b = NaN"
| "fl_mul a NaN = NaN"
| "fl_mul (Finite a) (Finite b) = Finite (a * b)"
| "fl_mul (Finite a) PInf = (if a = 0 then NaN else if a > 0 then PInf else NInf)"
| "fl_mul (Finite a) NInf = (if a = 0 then NaN else if a > 0 then NInf else PInf)"
| "fl_mul PInf (Finite b) = (if b = 0 then NaN else if b > 0 then PInf else NInf)"
| "fl_mul NInf (Finite b) = (if b = 0 then NaN else if b > 0 then NInf else PInf)"
| "fl_mul PInf PInf = PInf"
| "fl_mul NInf NInf = PInf"
| "fl_mul PInf NInf = NInf"
| "fl_mul NInf PInf = NInf"

text \<open>
  Python's \<^verbatim>\<open>sum\<close> starts from the integer \<open>0\<close> and adds the terms from the
  left; the terms here are tensors, so the result is a tensor as soon as there is one
  term, and the integer \<open>0\<close> when there is none.
\<close>

datatype pynum = PyInt int | Tensor fl

fun py_add :: "pynum \<Rightarrow> fl \<Rightarrow> pynum" where
  "py_add (PyInt i) t = Tensor (fl_add (Finite (of_int i)) t)"
| "py_add (Tensor a) t = Tensor (fl_add a t)"

definition py_sum :: "fl list \<Rightarrow> pynum" where
  "py_sum ts = foldl py_add (PyInt 0) ts"

text \<open>\<^verbatim>\<open>torch.isnan\<close> accepts a tensor only.\<close>

fun torch_isnan :: "pynum \<Rightarrow> error + bool" where
  "torch_isnan (PyInt i) = Inl TypeError"
| "torch_isnan (Tensor t) = Inr (t = NaN)"

section \<open>Loss aggregator\<close>

text \<open>A loss function returns a scalar or a mapping of scalars (its items, in order).\<close>

datatype loss_result = Scalar fl | Composite "(string \<times> fl) list"

text \<open>
  The body of the first loop of \<^verbatim>\<open>get_batch_losses\<close>. The dictionary
  \<^verbatim>\<open>individual_losses\<close> is an association list in insertion order; an assignment
  to a key it has replaces the value.
\<close>

fun store_loss :: "string \<Rightarrow> loss_result \<Rightarrow> (string \<times> fl) list \<Rightarrow> (string \<times> fl) list" where
  "store_loss key (Scalar v) acc = AList.update key v acc"
| "store_loss key (Composite m) acc =
     foldl (\<lambda>a kv. AList.update (key @ ''_'' @ fst kv) (snd kv) a) acc m"

definition individual_losses ::
  "(string \<times> ('o \<Rightarrow> loss_result)) list \<Rightarrow> 'o \<Rightarrow> (string \<times> fl) list" where
  "individual_losses loss_fns model_output =
     foldl (\<lambda>acc kf. store_loss (fst kf) (snd kf model_output) acc) [] loss_fns"

text \<open>
  The weighted total of a loss record: \<^verbatim>\<open>sum(w[k] * individual_losses[k] for k in
  individual_losses.keys())\<close>.
\<close>

definition weighted_total :: "(string \<Rightarrow> fl) \<Rightarrow> (string \<times> fl) list \<Rightarrow> pynum" where
  "weighted_total weights losses =
     py_sum (map (\<lambda>kv. fl_mul (weights (fst kv)) (snd kv)) losses)"

text \<open>
  \<^verbatim>\<open>get_batch_losses\<close>. The loss weights (\<^verbatim>\<open>self._loss_weight_setter[k]\<close>,
  of a class outside the sources) are a parameter.
\<close>

definition get_batch_losses ::
  "(string \<Rightarrow> fl) \<Rightarrow> (string \<times> ('o \<Rightarrow> loss_result)) list \<Rightarrow> 'o \<Rightarrow>
     error + (fl \<times> (string \<times> fl) list)" where
  "get_batch_losses weights loss_fns model_output =
     (let losses = individual_losses loss_fns model_output;
          total = weighted_total weights losses
      in case torch_isnan total of
           Inl e \<Rightarrow> Inl e
         | Inr isnan \<Rightarrow>
             (if isnan then Inl RuntimeError
              else (case total of Tensor t \<Rightarrow> Inr (t, losses) | PyInt i \<Rightarrow> Inl TypeError)))"

section \<open>Batch evaluator\<close>

text \<open>
  The values of the dictionary \<^verbatim>\<open>evaluate_model\<close> returns: Python's
  \<^verbatim>\<open>None\<close>, a tensor the model produced (of a type \<open>'t\<close> left open), or a field
  of the batch.
\<close>

datatype 't pyval =
    PyNone
  | ModelTensor 't
  | RealTensor "real list"
  | LongTensor "int list"
  | EdgeIndex "(nat \<times> nat) list"
  | Features "real list list"

text \<open>The calls \<^verbatim>\<open>evaluate_model\<close> makes, in order.\<close>

datatype event = CallGetMasks | CallApplyMask | CallModel

text \<open>
  The trainer. \<open>forward\<close> is \<^verbatim>\<open>self.model(data)\<close> for the current parameters
  \<open>model\<close>; it returns a dictionary. \<open>optimizer_step\<close> stands for
  \<^verbatim>\<open>zero_grad\<close>, \<^verbatim>\<open>backward\<close> and \<^verbatim>\<open>optimizer.step\<close>. \<open>squeeze\<close>
  is the tensor operation of that name. \<open>calls\<close> records the calls made by
  \<^verbatim>\<open>evaluate_model\<close> so far, \<open>batch_losses\<close> the results of
  \<^verbatim>\<open>get_batch_losses\<close> that the current step has appended to its lists.
\<close>

record ('m, 't) TCNTrainer =
  model :: 'm
  forward :: "'m \<Rightarrow> Data \<Rightarrow> (string \<rightharpoonup> 't)"
  squeeze :: "'t \<Rightarrow> 't"
  optimizer_step :: "'m \<Rightarrow> (string \<times> 't pyval) list \<Rightarrow> 'm"
  loss_functions :: "(string \<times> ((string \<times> 't pyval) list \<Rightarrow> loss_result)) list"
  loss_weight_setter :: "string \<Rightarrow> fl"
  training_truth_cuts :: TrainingTruthCutConfig
  train_loader :: "Data list"
  val_loader :: "Data list"
  test_loader :: "Data list"
  calls :: "event list"
  batch_losses :: "(fl \<times> (string \<times> fl) list) list"

text \<open>
  \<^verbatim>\<open>a * b\<close> on tensors of one dimension: equal shapes, or one operand of one
  element that is broadcast.
\<close>

definition tensor_mul :: "int list \<Rightarrow> int list \<Rightarrow> error + int list" where
  "tensor_mul a b =
     (if length a = length b then Inr (map (\<lambda>p. fst p * snd p) (zip a b))
      else if length b = 1 then Inr (map (\<lambda>v. v * hd b) a)
      else if length a = 1 then Inr (map (\<lambda>v. hd a * v) b)
      else Inl RuntimeError)"

definition squeeze_if_defined :: "('t \<Rightarrow> 't) \<Rightarrow> (string \<rightharpoonup> 't) \<Rightarrow> string \<Rightarrow> 't pyval" where
  "squeeze_if_defined sq out key =
     (case out key of Some v \<Rightarrow> ModelTensor (sq v) | None \<Rightarrow> PyNone)"

definition get_if_defined :: "(string \<rightharpoonup> 't) \<Rightarrow> string \<Rightarrow> 't pyval" where
  "get_if_defined out key = (case out key of Some v \<Rightarrow> ModelTensor v | None \<Rightarrow> PyNone)"

text \<open>
  The part of \<^verbatim>\<open>evaluate_model\<close> that selects the batch the model runs on, with
  the calls it makes.
\<close>

definition cut_batch ::
  "TrainingTruthCutConfig \<Rightarrow> Data \<Rightarrow> bool \<Rightarrow> event list \<times> (error + Data)" where
  "cut_batch cfg data apply_truth_cuts =
     (if apply_truth_cuts then
        (case get_masks cfg data of
           Inl e \<Rightarrow> ([CallGetMasks], Inl e)
         | Inr masks \<Rightarrow> ([CallGetMasks, CallApplyMask], apply_mask data (fst masks) (snd masks)))
      else ([], Inr data))"

text \<open>The dictionary \<^verbatim>\<open>dct\<close> that \<^verbatim>\<open>evaluate_model\<close> builds and returns.\<close>

definition output_dct ::
  "('t \<Rightarrow> 't) \<Rightarrow> (string \<rightharpoonup> 't) \<Rightarrow> Data \<Rightarrow> int list \<Rightarrow> (string \<times> 't pyval) list" where
  "output_dct sq out data pid_field =
     [(''w'', squeeze_if_defined sq out ''W''),
      (''x'', get_if_defined out ''H''),
      (''beta'', squeeze_if_defined sq out ''B''),
      (''y'', RealTensor (data_y data)),
      (''particle_id'', LongTensor pid_field),
      (''track_params'', RealTensor (pt data)),
      (''pt'', RealTensor (pt data)),
      (''reconstructable'', LongTensor (reconstructable data)),
      (''pred'', get_if_defined out ''P''),
      (''edge_index'', EdgeIndex (edge_index data)),
      (''sector'', LongTensor (sector data)),
      (''node_features'', Features (data_x data))]"

definition evaluate_model ::
  "('m, 't) TCNTrainer \<Rightarrow> Data \<Rightarrow> bool \<Rightarrow> bool \<Rightarrow>
     event list \<times> (error + (string \<times> 't pyval) list)" where
  "evaluate_model self data0 mask_pids_reco apply_truth_cuts =
     (case cut_batch (training_truth_cuts self) data0 apply_truth_cuts of
        (evs, Inl e) \<Rightarrow> (evs, Inl e)
      | (evs, Inr data) \<Rightarrow>
          (let out = forward self (model self) data in
           case (if mask_pids_reco then tensor_mul (particle_id data) (reconstructable data)
                 else Inr (particle_id data)) of
             Inl e \<Rightarrow> (evs @ [CallModel], Inl e)
           | Inr pid_field \<Rightarrow>
               (evs @ [CallModel], Inr (output_dct (squeeze self) out data pid_field))))"

section \<open>Trainer\<close>

text \<open>Python's truth value of \<^verbatim>\<open>max_batches: int | None\<close>.\<close>

fun truthy :: "int option \<Rightarrow> bool" where
  "truthy None = False"
| "truthy (Some n) = (n \<noteq> 0)"

text \<open>
  The body of the loop of \<^verbatim>\<open>train_step\<close> after the \<^verbatim>\<open>break\<close> test:
  evaluation with truth cuts, loss aggregation, optimizer step, and the append to
  \<^verbatim>\<open>_losses\<close>. Batch hooks (none are registered by default) and logging are left
  out.
\<close>

definition train_batch :: "('m, 't) TCNTrainer \<Rightarrow> Data \<Rightarrow> error + ('m, 't) TCNTrainer" where
  "train_batch self data =
     (case evaluate_model self data True True of
        (evs, Inl e) \<Rightarrow> Inl e
      | (evs, Inr model_output) \<Rightarrow>
          (case get_batch_losses (loss_weight_setter self) (loss_functions self) model_output of
             Inl e \<Rightarrow> Inl e
           | Inr r \<Rightarrow>
               Inr (self\<lparr>model := optimizer_step self (model self) model_output,
                          calls := calls self @ evs,
                          batch_losses := batch_losses self @ [r]\<rparr>)))"

text \<open>
  The loop of \<^verbatim>\<open>train_step\<close> over \<^verbatim>\<open>enumerate(self.train_loader)\<close>. The
  epoch averages, the update of the loss weights and the train hooks that follow the loop
  are left out.
\<close>

fun train_loop ::
  "int option \<Rightarrow> (nat \<times> Data) list \<Rightarrow> ('m, 't) TCNTrainer \<Rightarrow> error + ('m, 't) TCNTrainer" where
  "train_loop max_batches [] self = Inr self"
| "train_loop max_batches (b # rest) self =
     (if truthy max_batches \<and> int (fst b) > the max_batches then Inr self
      else (case train_batch self (snd b) of
              Inl e \<Rightarrow> Inl e
            | Inr self' \<Rightarrow> train_loop max_batches rest self'))"

definition train_step ::
  "('m, 't) TCNTrainer \<Rightarrow> int option \<Rightarrow> error + ('m, 't) TCNTrainer" where
  "train_step self max_batches =
     train_loop max_batches (enumerate 0 (train_loader self)) (self\<lparr>batch_losses := []\<rparr>)"




section \<open>Clustering hyperparameter scanner\<close>

text \<open>
  A numpy array of integers: its shape and its items in row-major order. A vector of
  length \<open>n\<close> has shape \<open>[n]\<close>.
\<close>

record ndarray =
  nd_shape :: "nat list"
  nd_items :: "int list"

definition vector :: "int list \<Rightarrow> ndarray" where
  "vector xs = \<lparr>nd_shape = [length xs], nd_items = xs\<rparr>"

text \<open>\<^verbatim>\<open>len(a)\<close>: the first dimension; an array of no dimension has no length.\<close>

definition nd_len :: "ndarray \<Rightarrow> error + nat" where
  "nd_len a = (case nd_shape a of [] \<Rightarrow> Inl TypeError | d # ds \<Rightarrow> Inr d)"

text \<open>
  \<^verbatim>\<open>np.ones(shape, dtype=int)\<close> where \<open>shape\<close> is a sequence of integers: one
  dimension per entry. More than 32 dimensions or a negative dimension raise.
\<close>

definition np_ones :: "int list \<Rightarrow> error + ndarray" where
  "np_ones shp =
     (if length shp > 32 then Inl ValueError
      else if list_ex (\<lambda>d. d < 0) shp then Inl ValueError
      else Inr \<lparr>nd_shape = map nat shp, nd_items = replicate (prod_list (map nat shp)) 1\<rparr>)"

text \<open>\<^verbatim>\<open>np.unique(a).tolist()\<close>: the distinct items, ascending.\<close>

definition np_unique :: "ndarray \<Rightarrow> int list" where
  "np_unique a = sort (remdups (nd_items a))"

text \<open>A list comprehension over a function that may raise.\<close>

fun try_map :: "('a \<Rightarrow> error + 'b) \<Rightarrow> 'a list \<Rightarrow> error + 'b list" where
  "try_map f [] = Inr []"
| "try_map f (v # vs) =
     (case f v of
        Inl e \<Rightarrow> Inl e
      | Inr w \<Rightarrow> (case try_map f vs of Inl e \<Rightarrow> Inl e | Inr ws \<Rightarrow> Inr (w # ws)))"

text \<open>
  The scanner's state. \<open>graph_to_sector\<close> is the dictionary
  \<^verbatim>\<open>_graph_to_sector\<close>. The state of numpy's random generator is the sequence
  \<open>rng\<close> of the numbers it will draw and the position \<open>rng_pos\<close> in it.
\<close>

record scanner =
  graphs :: "real list list list"
  truth :: "int list list"
  metric_names :: "string list"
  sectors :: "ndarray list"
  graph_to_sector :: "(nat \<times> int) list"
  rng :: "nat \<Rightarrow> nat"
  rng_pos :: nat

text \<open>
  \<^verbatim>\<open>ClusterHyperParamScanner.__init__\<close>: the checks and the fields the sector
  selection reads (the algorithm, the metric functions and the search object are not
  needed for it).
\<close>

definition init_scanner ::
  "real list list list \<Rightarrow> int list list \<Rightarrow> string list \<Rightarrow> int list list option \<Rightarrow>
     (nat \<Rightarrow> nat) \<Rightarrow> error + scanner" where
  "init_scanner gs ts names secs gen =
     (if map length gs \<noteq> map length ts then Inl AssertionError
      else if \<not> length gs > 0 then Inl AssertionError
      else if list_ex (\<lambda>k. CHR ''.'' \<in> set k) names then Inl ValueError
      else (case (case secs of
                    None \<Rightarrow> try_map np_ones ts
                  | Some ss \<Rightarrow>
                      (if map length ss \<noteq> map length ts then Inl AssertionError
                       else Inr (map vector ss))) of
              Inl e \<Rightarrow> Inl e
            | Inr ss \<Rightarrow>
                Inr \<lparr>graphs = gs, truth = ts, metric_names = names, sectors = ss,
                     graph_to_sector = [], rng = gen, rng_pos = 0\<rparr>))"

text \<open>
  \<^verbatim>\<open>_get_sector_to_study\<close>. \<^verbatim>\<open>np.random.choice\<close> raises on an empty list
  and otherwise returns the entry at the position the generator draws.
\<close>

definition get_sector_to_study :: "scanner \<Rightarrow> nat \<Rightarrow> error + (int \<times> scanner)" where
  "get_sector_to_study self i_graph =
     (case map_of (graph_to_sector self) i_graph of
        Some s \<Rightarrow> Inr (s, self)
      | None \<Rightarrow>
          (if i_graph \<ge> length (sectors self) then Inl IndexError
           else
             (let available = remove1 (- 1) (np_unique (sectors self ! i_graph)) in
              if available = [] then Inl ValueError
              else
                (let choice = available ! (rng self (rng_pos self) mod length available) in
                 Inr (choice,
                      self\<lparr>graph_to_sector := AList.update i_graph choice (graph_to_sector self),
                           rng_pos := rng_pos self + 1\<rparr>)))))"

text \<open>
  The selector called for each graph index of a list in turn, as the loops of
  \<^verbatim>\<open>_objective\<close> do over \<^verbatim>\<open>enumerate(zip(self.graphs, self.truth))\<close>; the
  first call that raises ends the trial, and the scanner keeps the state it had.
\<close>

fun select_sectors :: "nat list \<Rightarrow> scanner \<Rightarrow> (error + int list) \<times> scanner" where
  "select_sectors [] self = (Inr [], self)"
| "select_sectors (i # rest) self =
     (case get_sector_to_study self i of
        Inl e \<Rightarrow> (Inl e, self)
      | Inr r \<Rightarrow>
          (case select_sectors rest (snd r) of
             (Inl e, self') \<Rightarrow> (Inl e, self')
           | (Inr ss, self') \<Rightarrow> (Inr (fst r # ss), self')))"

text \<open>The sectors one trial of \<^verbatim>\<open>_objective\<close> studies, graph by graph.\<close>

definition objective_sectors :: "scanner \<Rightarrow> (error + int list) \<times> scanner" where
  "objective_sectors self =
     select_sectors [0 ..< min (length (graphs self)) (length (truth self))] self"

section \<open>Example inputs\<close>

text \<open>
  A batch of three hits (two particle hits, one noise hit) and two edges, a momentum cut
  at 0.9, and the trivial configuration (the defaults of the dataclass).
\<close>

definition example_batch :: Data where
  "example_batch =
     \<lparr>data_x = [[0], [1], [2]], data_y = [1, 0], edge_index = [(0, 2), (1, 2)],
      edge_attr = [[0], [0]], pt = [1, 1 / 2, 0], particle_id = [1, 2, 0],
      reconstructable = [1, 1, 0], sector = [0, 0, 1]\<rparr>"

definition example_cuts :: TrainingTruthCutConfig where
  "example_cuts = \<lparr>pt_thld = 9 / 10, without_noise = False, without_non_reconstructable = False\<rparr>"

definition trivial_cuts :: TrainingTruthCutConfig where
  "trivial_cuts = \<lparr>pt_thld = 0, without_noise = False, without_non_reconstructable = False\<rparr>"

text \<open>
  A trainer over that batch whose model computes edge weights only, with one scalar loss
  (or, for \<open>nan_trainer\<close>, a second loss that is not a number).
\<close>

definition example_trainer :: "TrainingTruthCutConfig \<Rightarrow> (unit, real list) TCNTrainer" where
  "example_trainer cfg =
     \<lparr>model = (),
      forward = (\<lambda>m d. [''W'' \<mapsto> map (\<lambda>e. 1 / 2) (edge_index d)]),
      squeeze = (\<lambda>t. t),
      optimizer_step = (\<lambda>m out. m),
      loss_functions = [(''edge'', \<lambda>out. Scalar (Finite 1))],
      loss_weight_setter = (\<lambda>k. Finite 1),
      training_truth_cuts = cfg,
      train_loader = [example_batch, example_batch, example_batch],
      val_loader = [example_batch],
      test_loader = [example_batch],
      calls = [],
      batch_losses = []\<rparr>"

text \<open>A trainer whose model computes none of the optional outputs.\<close>

definition bare_trainer :: "(unit, real list) TCNTrainer" where
  "bare_trainer = (example_trainer trivial_cuts)\<lparr>forward := (\<lambda>m d. Map.empty)\<rparr>"

text \<open>
  The flattened entries of one loss function's result, as the first loop of
  \<^verbatim>\<open>get_batch_losses\<close> names them: the key and value of each assignment it makes
  to \<^verbatim>\<open>individual_losses\<close>, in order.
\<close>

fun flatten :: "string \<Rightarrow> loss_result \<Rightarrow> (string \<times> fl) list" where
  "flatten key (Scalar v) = [(key, v)]"
| "flatten key (Composite m) = map (\<lambda>kv. (key @ ''_'' @ fst kv, snd kv)) m"

definition flat_entries ::
  "(string \<times> ('o \<Rightarrow> loss_result)) list \<Rightarrow> 'o \<Rightarrow> (string \<times> fl) list" where
  "flat_entries loss_fns model_output =
     concat (map (\<lambda>kf. flatten (fst kf) (snd kf model_output)) loss_fns)"

text \<open>Loss weights and loss functions for the examples.\<close>

definition unit_weights :: "string \<Rightarrow> fl" where
  "unit_weights k = Finite 1"


definition finite_loss :: "unit \<Rightarrow> loss_result" where
  "finite_loss u = Scalar (Finite 2)"


definition composite_loss :: "unit \<Rightarrow> loss_result" where
  "composite_loss u = Composite [(''attractive'', Finite 1), (''repulsive'', Finite 3)]"

text \<open>
  One graph of two hits with truth labels 1 and 2, a sector vector for it, and a random
  generator that always draws 0.
\<close>

definition example_graphs :: "real list list list" where
  "example_graphs = [[[0, 0], [1, 1]]]"

definition example_truth :: "int list list" where
  "example_truth = [[1, 2]]"

definition example_sectors :: "int list list" where
  "example_sectors = [[- 1, 3]]"

definition example_rng :: "nat \<Rightarrow> nat" where
  "example_rng k = 0"

definition example_scanner :: scanner where
  "example_scanner =
     \<lparr>graphs = example_graphs, truth = example_truth, metric_names = [],
      sectors = [vector [- 1, 3]], graph_to_sector = [], rng = example_rng, rng_pos = 0\<rparr>"

text \<open>
  The invariant of the scanner's sector memory: a remembered sector belongs to a graph the
  scanner has, is one of that graph's sector ids, and is not the background id.
\<close>

definition cache_ok :: "scanner \<Rightarrow> bool" where
  "cache_ok self =
     (\<forall>i s. map_of (graph_to_sector self) i = Some s \<longrightarrow>
        i < length (sectors self) \<and> s \<noteq> - 1 \<and> s \<in> set (nd_items (sectors self ! i)))"

section \<open>Properties of the mask engine\<close>

lemma int_index_Inr:
  "int_index xs idx = Inr ys \<Longrightarrow> ys = map (\<lambda>i. xs ! i) idx"
  by (simp add: int_index_def split: if_splits)

lemma iand_length: "iand a b = Inr c \<Longrightarrow> length c = length a"
  by (auto simp: iand_def split: if_splits)

lemma pt_cut_length: "pt_cut t d m = Inr c \<Longrightarrow> length c = length m"
  by (auto simp: pt_cut_def Let_def split: if_splits)

lemma old_edge_indices_length:
  "length (old_edge_indices nm) = length (filter (\<lambda>b. b) nm)"
proof (induction nm rule: rev_induct)
  case Nil
  show ?case by (simp add: old_edge_indices_def)
next
  case (snoc b nm)
  then show ?case by (simp add: old_edge_indices_def)
qed

lemma edge_index_mapping_snoc:
  "edge_index_mapping (nm @ [b]) i =
     (if b \<and> i = length nm then Some (length (filter (\<lambda>b. b) nm))
      else edge_index_mapping nm i)"
  using old_edge_indices_length [of nm]
  by (simp add: edge_index_mapping_def py_dict_def old_edge_indices_def new_edge_indices_def)

lemma edge_index_mapping_eq:
  "edge_index_mapping nm i =
     (if i < length nm \<and> nm ! i then Some (length (filter (\<lambda>b. b) (take i nm))) else None)"
proof (induction nm rule: rev_induct)
  case Nil
  show ?case
    by (simp add: edge_index_mapping_def py_dict_def old_edge_indices_def new_edge_indices_def)
next
  case (snoc b nm)
  show ?case
    unfolding edge_index_mapping_snoc snoc.IH
    by (auto simp: nth_append less_Suc_eq)
qed

lemma masked_map:
  "map fst (filter snd (zip (map f xs) msk)) = map f (map fst (filter snd (zip xs msk)))"
proof (induction xs arbitrary: msk)
  case Nil
  show ?case by simp
next
  case (Cons a xs)
  show ?case by (cases msk) (simp_all add: Cons.IH)
qed

lemma masked_length:
  "length msk = length xs \<Longrightarrow>
   length (filter snd (zip xs msk)) = length (filter (\<lambda>b. b) msk)"
  by (induction xs msk rule: list_induct2') simp_all

lemma bool_index_map:
  "bool_index (map f xs) msk = Inr ys \<Longrightarrow>
   \<exists>zs. bool_index xs msk = Inr zs \<and> ys = map f zs"
  by (auto simp: bool_index_def masked_map split: if_splits)

lemma bool_index_length:
  "bool_index xs msk = Inr ys \<Longrightarrow> length ys = length (filter (\<lambda>b. b) msk)"
  by (auto simp: bool_index_def masked_length split: if_splits)

lemma vectorize_Inr:
  "vectorize f xs = Inr ys \<Longrightarrow> ys = map (\<lambda>v. the (f v)) xs \<and> (\<forall>v\<in>set xs. v \<in> dom f)"
  by (auto simp: vectorize_def list_all_iff split: if_splits)

lemma edge_index_mapping_dom:
  "dom (edge_index_mapping nm) = {i. i < length nm \<and> nm ! i}"
  by (auto simp: edge_index_mapping_eq dom_def)

lemma edge_index_mapping_ran:
  "ran (edge_index_mapping nm) = {0 ..< length (filter (\<lambda>b. b) nm)}"
proof (induction nm rule: rev_induct)
  case Nil
  show ?case by (simp add: ran_def edge_index_mapping_eq)
next
  case (snoc b nm)
  have none: "edge_index_mapping nm (length nm) = None"
    by (simp add: edge_index_mapping_eq)
  show ?case
  proof (cases b)
    case True
    have "edge_index_mapping (nm @ [b]) =
            (edge_index_mapping nm)(length nm \<mapsto> length (filter (\<lambda>b. b) nm))"
      using True by (auto simp: edge_index_mapping_snoc fun_eq_iff)
    then have "ran (edge_index_mapping (nm @ [b])) =
            insert (length (filter (\<lambda>b. b) nm)) (ran (edge_index_mapping nm))"
      using none ran_map_upd [of "edge_index_mapping nm" "length nm"] by simp
    then show ?thesis
      using True snoc.IH by (simp add: atLeast0_lessThan_Suc)
  next
    case False
    have "edge_index_mapping (nm @ [b]) = edge_index_mapping nm"
      using False by (auto simp: edge_index_mapping_snoc fun_eq_iff)
    then show ?thesis using False snoc.IH by simp
  qed
qed

lemma count_take_mono:
  "a \<le> b \<Longrightarrow> length (filter P (take a xs)) \<le> length (filter P (take b xs))"
proof -
  assume "a \<le> b"
  then have "take b xs = take a xs @ take (b - a) (drop a xs)"
    by (metis le_add_diff_inverse take_add)
  then show ?thesis by simp
qed

lemma edge_index_mapping_mono:
  assumes "edge_index_mapping nm i = Some a" and "edge_index_mapping nm j = Some b"
    and "i < j"
  shows "a < b"
proof -
  from assms(1) have i: "i < length nm" "nm ! i" "a = length (filter (\<lambda>b. b) (take i nm))"
    by (auto simp: edge_index_mapping_eq split: if_splits)
  from assms(2) have j: "b = length (filter (\<lambda>b. b) (take j nm))"
    by (auto simp: edge_index_mapping_eq split: if_splits)
  have "length (filter (\<lambda>b. b) (take (Suc i) nm)) = Suc a"
    using i by (simp add: take_Suc_conv_app_nth)
  moreover have "length (filter (\<lambda>b. b) (take (Suc i) nm)) \<le> b"
    unfolding j using assms(3) by (intro count_take_mono) simp
  ultimately show ?thesis by simp
qed

lemma edge_index_mapping_inj: "inj_on (edge_index_mapping nm) (dom (edge_index_mapping nm))"
proof (rule inj_onI)
  fix i j
  assume d: "i \<in> dom (edge_index_mapping nm)" "j \<in> dom (edge_index_mapping nm)"
    and eq: "edge_index_mapping nm i = edge_index_mapping nm j"
  from d obtain a where a: "edge_index_mapping nm i = Some a" by auto
  with eq have b: "edge_index_mapping nm j = Some a" by simp
  show "i = j"
  proof (rule ccontr)
    assume "i \<noteq> j"
    then consider "i < j" | "j < i" by linarith
    then show False
      using edge_index_mapping_mono [OF a b] edge_index_mapping_mono [OF b a] by cases auto
  qed
qed

lemma apply_mask_Inr:
  assumes "apply_mask data nm em = Inr d"
  shows "\<exists>surv. bool_index (edge_index data) em = Inr surv \<and>
           edge_index d = map (\<lambda>e. (the (edge_index_mapping nm (fst e)),
                                      the (edge_index_mapping nm (snd e)))) surv \<and>
           (\<forall>e\<in>set surv. fst e \<in> dom (edge_index_mapping nm) \<and>
                           snd e \<in> dom (edge_index_mapping nm))"
    and "bool_index (data_x data) nm = Inr (data_x d)"
proof -
  from assms obtain src row0 dst row1 where
    s: "bool_index (map fst (edge_index data)) em = Inr src" and
    r0: "vectorize (edge_index_mapping nm) src = Inr row0" and
    t: "bool_index (map snd (edge_index data)) em = Inr dst" and
    r1: "vectorize (edge_index_mapping nm) dst = Inr row1" and
    x: "bool_index (data_x data) nm = Inr (data_x d)" and
    e: "edge_index d = zip row0 row1"
    by (auto simp: apply_mask_def split: sum.splits)
  from s obtain surv where surv: "bool_index (edge_index data) em = Inr surv"
    and src: "src = map fst surv"
    using bool_index_map by blast
  from t surv have dst: "dst = map snd surv"
    using bool_index_map [OF t] by auto
  from vectorize_Inr [OF r0] vectorize_Inr [OF r1] src dst e
  have "edge_index d = map (\<lambda>e. (the (edge_index_mapping nm (fst e)),
                                      the (edge_index_mapping nm (snd e)))) surv"
    by (simp add: zip_map_map zip_same_conv_map)
  moreover have "\<forall>e\<in>set surv. fst e \<in> dom (edge_index_mapping nm) \<and>
                           snd e \<in> dom (edge_index_mapping nm)"
    using vectorize_Inr [OF r0] vectorize_Inr [OF r1] src dst by auto
  ultimately show "\<exists>surv. bool_index (edge_index data) em = Inr surv \<and>
           edge_index d = map (\<lambda>e. (the (edge_index_mapping nm (fst e)),
                                      the (edge_index_mapping nm (snd e)))) surv \<and>
           (\<forall>e\<in>set surv. fst e \<in> dom (edge_index_mapping nm) \<and>
                           snd e \<in> dom (edge_index_mapping nm))"
    using surv by blast
  show "bool_index (data_x data) nm = Inr (data_x d)" by (rule x)
qed

lemma pt_cut_wf:
  assumes "length (particle_id data) = length nm" and "length (pt data) = length nm"
  shows "\<exists>nm'. pt_cut thld data nm = Inr nm' \<and> length nm' = length nm \<and>
           (\<forall>i<length nm. nm' ! i =
              (nm ! i \<and> \<not> (particle_id data ! i > 0 \<and> pt data ! i \<le> thld)))"
  using assms by (auto simp: pt_cut_def Let_def)

lemma iand_wf:
  assumes "length b = length a"
  shows "\<exists>c. iand a b = Inr c \<and> length c = length a \<and> (\<forall>i<length a. c ! i = (a ! i \<and> b ! i))"
  using assms by (simp add: iand_def)

lemma get_masks_Inr:
  assumes "get_masks cfg data = Inr (nm, em)"
  shows "length em = length (edge_index data)"
    and "e < length (edge_index data) \<Longrightarrow>
           fst (edge_index data ! e) < length nm \<and> snd (edge_index data ! e) < length nm \<and>
           em ! e = (nm ! fst (edge_index data ! e) \<and> nm ! snd (edge_index data ! e))"
proof -
  from assms obtain m0 m1 where
    m0: "int_index nm (map fst (edge_index data)) = Inr m0" and
    m1: "int_index nm (map snd (edge_index data)) = Inr m1" and
    em: "em = map (\<lambda>p. fst p \<and> snd p) (zip m0 m1)"
    by (auto simp: get_masks_def Let_def split: sum.splits)
  have r0: "m0 = map (\<lambda>i. nm ! i) (map fst (edge_index data))"
    and r1: "m1 = map (\<lambda>i. nm ! i) (map snd (edge_index data))"
    using m0 m1 by (auto dest: int_index_Inr)
  show "length em = length (edge_index data)"
    by (simp add: em r0 r1)
  assume e: "e < length (edge_index data)"
  have "fst (edge_index data ! e) < length nm" "snd (edge_index data ! e) < length nm"
    using m0 m1 e by (auto simp: int_index_def list_all_length split: if_splits)
  moreover have "em ! e = (nm ! fst (edge_index data ! e) \<and> nm ! snd (edge_index data ! e))"
    using e by (simp add: em r0 r1)
  ultimately show "fst (edge_index data ! e) < length nm \<and> snd (edge_index data ! e) < length nm \<and>
           em ! e = (nm ! fst (edge_index data ! e) \<and> nm ! snd (edge_index data ! e))"
    by simp
qed

lemma get_masks_wf:
  assumes wf: "wf_batch data"
  shows "\<exists>nm em. get_masks cfg data = Inr (nm, em) \<and> length nm = length (data_x data) \<and>
           (\<forall>i<length (data_x data). nm ! i =
              ((pt_thld cfg > 0 \<longrightarrow> \<not> (particle_id data ! i > 0 \<and> pt data ! i \<le> pt_thld cfg)) \<and>
               (without_noise cfg \<longrightarrow> particle_id data ! i > 0) \<and>
               (without_non_reconstructable cfg \<longrightarrow> reconstructable data ! i > 0)))"
proof -
  let ?n = "length (data_x data)"
  from wf have len: "length (pt data) = ?n" "length (particle_id data) = ?n"
    "length (reconstructable data) = ?n"
    and edges: "list_all (\<lambda>e. fst e < ?n \<and> snd e < ?n) (edge_index data)"
    by (simp_all add: wf_batch_def)
  obtain nm1 where nm1:
    "(if pt_thld cfg > 0 then pt_cut (pt_thld cfg) data (replicate ?n True)
      else Inr (replicate ?n True)) = Inr nm1"
    "length nm1 = ?n"
    "\<forall>i<?n. nm1 ! i =
       (pt_thld cfg > 0 \<longrightarrow> \<not> (particle_id data ! i > 0 \<and> pt data ! i \<le> pt_thld cfg))"
    using pt_cut_wf [of data "replicate ?n True" "pt_thld cfg"] len
    by (cases "pt_thld cfg > 0") auto
  obtain nm2 where nm2:
    "(if without_noise cfg then iand nm1 (map (\<lambda>p. p > 0) (particle_id data))
      else Inr nm1) = Inr nm2"
    "length nm2 = ?n"
    "\<forall>i<?n. nm2 ! i = (nm1 ! i \<and> (without_noise cfg \<longrightarrow> particle_id data ! i > 0))"
    using iand_wf [of "map (\<lambda>p. p > 0) (particle_id data)" nm1] len nm1(2)
    by (cases "without_noise cfg") auto
  obtain nm3 where nm3:
    "(if without_non_reconstructable cfg
      then iand nm2 (map (\<lambda>r. r > 0) (reconstructable data)) else Inr nm2) = Inr nm3"
    "length nm3 = ?n"
    "\<forall>i<?n. nm3 ! i =
       (nm2 ! i \<and> (without_non_reconstructable cfg \<longrightarrow> reconstructable data ! i > 0))"
    using iand_wf [of "map (\<lambda>r. r > 0) (reconstructable data)" nm2] len nm2(2)
    by (cases "without_non_reconstructable cfg") auto
  have i0: "int_index nm3 (map fst (edge_index data)) =
              Inr (map (\<lambda>i. nm3 ! i) (map fst (edge_index data)))"
    and i1: "int_index nm3 (map snd (edge_index data)) =
              Inr (map (\<lambda>i. nm3 ! i) (map snd (edge_index data)))"
    using edges nm3(2) by (auto simp: int_index_def list_all_iff)
  have "get_masks cfg data =
          Inr (nm3, map (\<lambda>p. fst p \<and> snd p)
                 (zip (map (\<lambda>i. nm3 ! i) (map fst (edge_index data)))
                      (map (\<lambda>i. nm3 ! i) (map snd (edge_index data)))))"
    unfolding get_masks_def Let_def nm1(1) sum.case nm2(1) nm3(1) i0 i1 ..
  moreover have "\<forall>i<?n. nm3 ! i =
      ((pt_thld cfg > 0 \<longrightarrow> \<not> (particle_id data ! i > 0 \<and> pt data ! i \<le> pt_thld cfg)) \<and>
       (without_noise cfg \<longrightarrow> particle_id data ! i > 0) \<and>
       (without_non_reconstructable cfg \<longrightarrow> reconstructable data ! i > 0))"
    using nm1(3) nm2(3) nm3(3) by simp
  ultimately show ?thesis using nm3(2) by blast
qed

text \<open>
  \<^verbatim>\<open>_apply_mask\<close> returns a batch when it is given a batch that satisfies the
  batch invariant and the masks \<^verbatim>\<open>get_masks\<close> computed for it, as long as one
  edge survives. (When no edge survives, \<^verbatim>\<open>np.vectorize\<close> is called on an input
  of size 0 and raises.)
\<close>

lemma apply_mask_returns:
  assumes wf: "wf_batch data" and g: "get_masks cfg data = Inr (nm, em)"
    and surv: "True \<in> set em"
  shows "\<exists>d. apply_mask data nm em = Inr d"
proof -
  let ?n = "length (data_x data)" and ?ei = "edge_index data"
  let ?m = "edge_index_mapping nm"
  let ?surv = "map fst (filter snd (zip ?ei em))"
  from wf have len: "length (pt data) = ?n" "length (particle_id data) = ?n"
    "length (reconstructable data) = ?n" "length (sector data) = ?n"
    "length (data_y data) = length ?ei" "length (edge_attr data) = length ?ei"
    by (simp_all add: wf_batch_def)
  have nm: "length nm = ?n"
    using get_masks_wf [OF wf, of cfg] g by auto
  have em: "length em = length ?ei"
    using g by (rule get_masks_Inr(1))
  have ends: "fst p \<in> dom ?m \<and> snd p \<in> dom ?m" if "p \<in> set ?surv" for p
  proof -
    from that have "(p, True) \<in> set (zip ?ei em)" by auto
    then obtain e where e: "e < length ?ei" and p: "?ei ! e = p" and t: "em ! e"
      by (auto simp: in_set_zip)
    from get_masks_Inr(2) [OF g e] p t show ?thesis
      by (simp add: edge_index_mapping_dom)
  qed
  have ne: "?surv \<noteq> []"
  proof -
    from surv obtain e where "e < length em" and "em ! e"
      by (auto simp: in_set_conv_nth)
    then have "(?ei ! e, True) \<in> set (zip ?ei em)"
      using em by (auto simp: in_set_zip)
    then have "(?ei ! e, True) \<in> set (filter snd (zip ?ei em))" by simp
    then have "filter snd (zip ?ei em) \<noteq> []" by (metis empty_iff empty_set)
    then show ?thesis by simp
  qed
  have s: "bool_index (map fst ?ei) em = Inr (map fst ?surv)"
    and t: "bool_index (map snd ?ei) em = Inr (map snd ?surv)"
    using em by (simp_all add: bool_index_def masked_map)
  have v0: "vectorize ?m (map fst ?surv) = Inr (map (\<lambda>v. the (?m v)) (map fst ?surv))"
    and v1: "vectorize ?m (map snd ?surv) = Inr (map (\<lambda>v. the (?m v)) (map snd ?surv))"
  proof -
    have "list_all (\<lambda>v. ?m v \<noteq> None) (map fst ?surv)"
      and "list_all (\<lambda>v. ?m v \<noteq> None) (map snd ?surv)"
      unfolding list_all_iff using ends by force+
    then show "vectorize ?m (map fst ?surv) = Inr (map (\<lambda>v. the (?m v)) (map fst ?surv))"
      and "vectorize ?m (map snd ?surv) = Inr (map (\<lambda>v. the (?m v)) (map snd ?surv))"
      using ne by (simp_all add: vectorize_def)
  qed
  have b: "\<exists>r. bool_index (data_x data) nm = Inr r" "\<exists>r. bool_index (data_y data) em = Inr r"
    "\<exists>r. bool_index (edge_attr data) em = Inr r" "\<exists>r. bool_index (pt data) nm = Inr r"
    "\<exists>r. bool_index (particle_id data) nm = Inr r"
    "\<exists>r. bool_index (reconstructable data) nm = Inr r"
    "\<exists>r. bool_index (sector data) nm = Inr r"
    by (simp_all add: bool_index_def len nm em)
  then obtain r1 r2 r3 r4 r5 r6 r7 where r:
    "bool_index (data_x data) nm = Inr r1" "bool_index (data_y data) em = Inr r2"
    "bool_index (edge_attr data) em = Inr r3" "bool_index (pt data) nm = Inr r4"
    "bool_index (particle_id data) nm = Inr r5" "bool_index (reconstructable data) nm = Inr r6"
    "bool_index (sector data) nm = Inr r7"
    by blast
  show ?thesis
    by (simp only: apply_mask_def s t v0 v1 r sum.case) blast
qed

text \<open>
  Claim C1. For every batch and every truth-cut configuration, the pair
  \<open>(node_mask, edge_mask)\<close> that \<^verbatim>\<open>get_masks\<close> returns has one edge-mask entry
  per edge, every edge endpoint is a position of the node mask, and the entry of edge
  \<open>e\<close> is the conjunction of the node-mask entries of its source and its destination.
  On a batch that satisfies the batch invariant \<^verbatim>\<open>get_masks\<close> does return a pair.
\<close>

theorem get_masks_edge_mask_is_and:
  "(wf_batch data \<longrightarrow> (\<exists>nm em. get_masks cfg data = Inr (nm, em))) \<and>
   (\<forall>nm em. get_masks cfg data = Inr (nm, em) \<longrightarrow>
      length em = length (edge_index data) \<and>
      (\<forall>e<length (edge_index data).
         fst (edge_index data ! e) < length nm \<and> snd (edge_index data ! e) < length nm \<and>
         em ! e = (nm ! fst (edge_index data ! e) \<and> nm ! snd (edge_index data ! e))))"
proof -
  have "wf_batch data \<Longrightarrow> \<exists>nm em. get_masks cfg data = Inr (nm, em)"
    using get_masks_wf [of data cfg] by blast
  moreover have "\<And>nm em. get_masks cfg data = Inr (nm, em) \<Longrightarrow>
      length em = length (edge_index data)"
    by (rule get_masks_Inr(1))
  moreover have "\<And>nm em e. get_masks cfg data = Inr (nm, em) \<Longrightarrow>
      e < length (edge_index data) \<Longrightarrow>
      fst (edge_index data ! e) < length nm \<and> snd (edge_index data ! e) < length nm \<and>
      em ! e = (nm ! fst (edge_index data ! e) \<and> nm ! snd (edge_index data ! e))"
    by (rule get_masks_Inr(2))
  ultimately show ?thesis by blast
qed

lemma example_batch_wf: "wf_batch example_batch"
  by (simp add: wf_batch_def example_batch_def)

lemma example_get_masks:
  "get_masks example_cuts example_batch = Inr ([True, False, True], [True, False])"
  by (simp add: get_masks_def example_cuts_def example_batch_def pt_cut_def int_index_def)

theorem get_masks_edge_mask_is_and_witness:
  "wf_batch example_batch \<and>
   get_masks example_cuts example_batch = Inr ([True, False, True], [True, False]) \<and>
   [True, False] ! 1 = ([True, False, True] ! 1 \<and> [True, False, True] ! 2)"
  using get_masks_edge_mask_is_and [of example_batch example_cuts]
    example_batch_wf example_get_masks
  by simp



text \<open>
  Claim C5. When \<^verbatim>\<open>_apply_mask\<close> returns a batch, the index mapping it used is
  defined exactly on the surviving nodes, takes exactly the values \<open>0, \<dots>, k - 1\<close> for the
  \<open>k\<close> nodes of the returned batch, is injective and strictly increasing, and the edges
  of the returned batch are the surviving edges (those under a true edge-mask bit, in
  order) with both endpoints replaced by their images under the mapping.
\<close>

theorem apply_mask_reindex:
  assumes "apply_mask data node_mask edge_mask = Inr d"
  shows "dom (edge_index_mapping node_mask) = {i. i < length node_mask \<and> node_mask ! i} \<and>
         ran (edge_index_mapping node_mask) = {0 ..< length (data_x d)} \<and>
         inj_on (edge_index_mapping node_mask) (dom (edge_index_mapping node_mask)) \<and>
         (\<forall>i j a b. edge_index_mapping node_mask i = Some a \<and>
                    edge_index_mapping node_mask j = Some b \<and> i < j \<longrightarrow> a < b) \<and>
         (\<exists>surv. bool_index (edge_index data) edge_mask = Inr surv \<and>
            (\<forall>e\<in>set surv. fst e \<in> dom (edge_index_mapping node_mask) \<and>
                            snd e \<in> dom (edge_index_mapping node_mask)) \<and>
            edge_index d = map (\<lambda>e. (the (edge_index_mapping node_mask (fst e)),
                                       the (edge_index_mapping node_mask (snd e)))) surv)"
proof -
  have "length (data_x d) = length (filter (\<lambda>b. b) node_mask)"
    using apply_mask_Inr(2) [OF assms] by (rule bool_index_length)
  then have "ran (edge_index_mapping node_mask) = {0 ..< length (data_x d)}"
    by (simp add: edge_index_mapping_ran)
  moreover have "\<forall>i j a b. edge_index_mapping node_mask i = Some a \<and>
                    edge_index_mapping node_mask j = Some b \<and> i < j \<longrightarrow> a < b"
    using edge_index_mapping_mono by blast
  ultimately show ?thesis
    using edge_index_mapping_dom [of node_mask] edge_index_mapping_inj [of node_mask]
      apply_mask_Inr(1) [OF assms]
    by blast
qed

lemma example_apply_mask:
  "apply_mask example_batch [True, False, True] [True, False] =
     Inr \<lparr>data_x = [[0], [2]], data_y = [1], edge_index = [(0, 1)], edge_attr = [[0]],
          pt = [1, 0], particle_id = [1, 0], reconstructable = [1, 0], sector = [0, 1]\<rparr>"
  by (simp add: apply_mask_def example_batch_def bool_index_def vectorize_def
      edge_index_mapping_eq)

theorem apply_mask_reindex_witness:
  "apply_mask example_batch [True, False, True] [True, False] =
     Inr \<lparr>data_x = [[0], [2]], data_y = [1], edge_index = [(0, 1)], edge_attr = [[0]],
          pt = [1, 0], particle_id = [1, 0], reconstructable = [1, 0], sector = [0, 1]\<rparr> \<and>
   edge_index_mapping [True, False, True] 0 = Some 0 \<and>
   edge_index_mapping [True, False, True] 1 = None \<and>
   edge_index_mapping [True, False, True] 2 = Some 1 \<and>
   ran (edge_index_mapping [True, False, True]) = {0 ..< 2}"
  using apply_mask_reindex [OF example_apply_mask] example_apply_mask
  by (simp add: edge_index_mapping_eq numeral_2_eq_2)

section \<open>Properties of the loss aggregator\<close>













subsection \<open>The keys of the loss record\<close>

lemma map_of_foldl_update:
  "map_of (foldl (\<lambda>a kv. AList.update (fst kv) (snd kv) a) acc es) =
     map_of acc ++ map_of (rev es)"
proof (induction es arbitrary: acc)
  case Nil
  show ?case by simp
next
  case (Cons e es)
  have h: "map_of (AList.update (fst e) (snd e) acc) = map_of acc ++ map_of [e]"
    by (simp add: update_conv' fun_eq_iff map_add_def)
  have "map_of (foldl (\<lambda>a kv. AList.update (fst kv) (snd kv) a) acc (e # es)) =
          map_of (AList.update (fst e) (snd e) acc) ++ map_of (rev es)"
    by (simp add: Cons.IH)
  also have "\<dots> = map_of acc ++ (map_of [e] ++ map_of (rev es))"
    by (simp only: h map_add_assoc)
  also have "map_of [e] ++ map_of (rev es) = map_of (rev (e # es))"
    by (simp only: rev.simps map_of_append)
  finally show ?case .
qed

lemma store_loss_flatten:
  "store_loss key r acc = foldl (\<lambda>a kv. AList.update (fst kv) (snd kv) a) acc (flatten key r)"
  by (cases r) (simp_all add: foldl_map)

lemma map_of_store_loss:
  "map_of (store_loss key r acc) = map_of acc ++ map_of (rev (flatten key r))"
  by (simp add: store_loss_flatten map_of_foldl_update)

lemma map_of_foldl_store_loss:
  "map_of (foldl (\<lambda>acc kf. store_loss (fst kf) (snd kf out) acc) acc fs) =
     map_of acc ++ map_of (rev (flat_entries fs out))"
proof (induction fs arbitrary: acc)
  case Nil
  show ?case by (simp add: flat_entries_def)
next
  case (Cons f fs)
  have "flat_entries (f # fs) out = flatten (fst f) (snd f out) @ flat_entries fs out"
    by (simp add: flat_entries_def)
  then show ?case by (simp add: Cons.IH map_of_store_loss)
qed

lemma map_of_individual_losses:
  "map_of (individual_losses fs out) = map_of (rev (flat_entries fs out))"
  by (simp add: individual_losses_def map_of_foldl_store_loss)

lemma individual_losses_entry:
  assumes "distinct (map fst (flat_entries fs out))" and "(k, v) \<in> set (flat_entries fs out)"
  shows "map_of (individual_losses fs out) k = Some v"
proof -
  have "distinct (map fst (rev (flat_entries fs out)))"
    using assms(1) by (simp add: rev_map [symmetric])
  then show ?thesis
    using assms(2) by (simp add: map_of_individual_losses)
qed

text \<open>
  Claim C6, amended. When \<^verbatim>\<open>get_batch_losses\<close> returns and no two flattened
  entries have the same key, the returned record holds the result of a loss function
  named \<open>name\<close> under \<open>name\<close> when it is a scalar, and each entry \<open>(k, v)\<close> of a
  mapping result under the key \<open>name_k\<close>: the name and the subkey joined by an
  underscore.
\<close>

theorem losses_stored_under_joined_names:
  assumes "get_batch_losses w loss_fns out = Inr (tot, losses)"
    and "(name, f) \<in> set loss_fns"
    and "distinct (map fst (flat_entries loss_fns out))"
  shows "(\<forall>v. f out = Scalar v \<longrightarrow> map_of losses name = Some v) \<and>
         (\<forall>m k v. f out = Composite m \<and> (k, v) \<in> set m \<longrightarrow>
            map_of losses (name @ ''_'' @ k) = Some v)"
proof -
  have l: "losses = individual_losses loss_fns out"
    using assms(1)
    by (auto simp: get_batch_losses_def Let_def split: sum.splits if_splits pynum.splits)
  have sub: "set (flatten name (f out)) \<subseteq> set (flat_entries loss_fns out)"
    using assms(2) by (force simp: flat_entries_def)
  have "map_of losses name = Some v" if "f out = Scalar v" for v
    using sub that individual_losses_entry [OF assms(3), of name v] l by simp
  moreover have "map_of losses (name @ ''_'' @ k) = Some v"
    if "f out = Composite m" and "(k, v) \<in> set m" for m k v
  proof -
    have "(name @ ''_'' @ k, v) \<in> set (flatten name (f out))"
      using that by force
    with sub show ?thesis
      using individual_losses_entry [OF assms(3), of "name @ ''_'' @ k" v] l by blast
  qed
  ultimately show ?thesis by blast
qed

lemma example_composite:
  "get_batch_losses unit_weights [(''potential'', composite_loss), (''hinge'', finite_loss)] () =
     Inr (Finite 6, [(''potential_attractive'', Finite 1), (''potential_repulsive'', Finite 3),
                     (''hinge'', Finite 2)])"
  by (simp add: get_batch_losses_def individual_losses_def finite_loss_def composite_loss_def
        weighted_total_def py_sum_def unit_weights_def)

theorem losses_stored_under_joined_names_witness:
  "get_batch_losses unit_weights [(''potential'', composite_loss), (''hinge'', finite_loss)] () =
     Inr (Finite 6, [(''potential_attractive'', Finite 1), (''potential_repulsive'', Finite 3),
                     (''hinge'', Finite 2)]) \<and>
   composite_loss () = Composite [(''attractive'', Finite 1), (''repulsive'', Finite 3)] \<and>
   map_of [(''potential_attractive'', Finite 1), (''potential_repulsive'', Finite 3),
           (''hinge'', Finite 2)] (''potential'' @ ''_'' @ ''repulsive'') = Some (Finite 3)"
proof -
  have d: "distinct (map fst (flat_entries
             [(''potential'', composite_loss), (''hinge'', finite_loss)] ()))"
    by (simp add: flat_entries_def composite_loss_def finite_loss_def)
  have m: "(''potential'', composite_loss) \<in>
             set [(''potential'', composite_loss), (''hinge'', finite_loss)]"
    by simp
  from losses_stored_under_joined_names [OF example_composite m d]
  show ?thesis using example_composite by (simp add: composite_loss_def)
qed

text \<open>
  Claim C6 as stated fails: for a loss function \<open>potential\<close> that returns a mapping
  with the subkey \<open>repulsive\<close>, the record has no key \<open>potential.repulsive\<close>.
\<close>

theorem losses_dotted_key_counterexample:
  "get_batch_losses unit_weights [(''potential'', composite_loss), (''hinge'', finite_loss)] () =
     Inr (Finite 6, [(''potential_attractive'', Finite 1), (''potential_repulsive'', Finite 3),
                     (''hinge'', Finite 2)]) \<and>
   map_of [(''potential_attractive'', Finite 1), (''potential_repulsive'', Finite 3),
           (''hinge'', Finite 2)] ''potential.repulsive'' = None"
  using example_composite by simp

section \<open>Properties of the batch evaluator\<close>

lemma map_of_output_dct:
  "map fst (output_dct sq out data pid_field) =
     [''w'', ''x'', ''beta'', ''y'', ''particle_id'', ''track_params'', ''pt'',
      ''reconstructable'', ''pred'', ''edge_index'', ''sector'', ''node_features'']"
  "map_of (output_dct sq out data pid_field) ''w'' = Some (squeeze_if_defined sq out ''W'')"
  "map_of (output_dct sq out data pid_field) ''x'' = Some (get_if_defined out ''H'')"
  "map_of (output_dct sq out data pid_field) ''beta'' = Some (squeeze_if_defined sq out ''B'')"
  "map_of (output_dct sq out data pid_field) ''pred'' = Some (get_if_defined out ''P'')"
  "map_of (output_dct sq out data pid_field) ''y'' = Some (RealTensor (data_y data))"
  "map_of (output_dct sq out data pid_field) ''particle_id'' = Some (LongTensor pid_field)"
  "map_of (output_dct sq out data pid_field) ''pt'' = Some (RealTensor (pt data))"
  "map_of (output_dct sq out data pid_field) ''edge_index'' = Some (EdgeIndex (edge_index data))"
  "map_of (output_dct sq out data pid_field) ''sector'' = Some (LongTensor (sector data))"
  "map_of (output_dct sq out data pid_field) ''node_features'' = Some (Features (data_x data))"
  by (simp_all add: output_dct_def)

lemma evaluate_model_Inr:
  assumes "snd (evaluate_model self data0 mask_pids_reco apply_truth_cuts) = Inr dct"
  shows "\<exists>data pid_field.
           snd (cut_batch (training_truth_cuts self) data0 apply_truth_cuts) = Inr data \<and>
           dct = output_dct (squeeze self) (forward self (model self) data) data pid_field"
  using assms
  by (auto simp: evaluate_model_def Let_def split: prod.splits sum.splits)

text \<open>
  Claim C7, amended. The dictionary \<^verbatim>\<open>evaluate_model\<close> returns always has the
  same twelve keys. The keys \<open>w\<close>, \<open>x\<close>, \<open>beta\<close> and \<open>pred\<close> of the model
  outputs W, H, B and P are present whether or not the model computed the output; the
  value of an output the model did not compute is \<^verbatim>\<open>None\<close>. The ground-truth
  fields are present with the values of the batch the model ran on.
\<close>

theorem evaluate_model_keys_present:
  assumes "snd (evaluate_model self data0 mask_pids_reco apply_truth_cuts) = Inr dct"
  shows "map fst dct =
           [''w'', ''x'', ''beta'', ''y'', ''particle_id'', ''track_params'', ''pt'',
            ''reconstructable'', ''pred'', ''edge_index'', ''sector'', ''node_features''] \<and>
         (\<exists>data pid_field.
            snd (cut_batch (training_truth_cuts self) data0 apply_truth_cuts) = Inr data \<and>
            map_of dct ''w'' =
              Some (case forward self (model self) data ''W'' of
                      None \<Rightarrow> PyNone | Some v \<Rightarrow> ModelTensor (squeeze self v)) \<and>
            map_of dct ''x'' =
              Some (case forward self (model self) data ''H'' of
                      None \<Rightarrow> PyNone | Some v \<Rightarrow> ModelTensor v) \<and>
            map_of dct ''beta'' =
              Some (case forward self (model self) data ''B'' of
                      None \<Rightarrow> PyNone | Some v \<Rightarrow> ModelTensor (squeeze self v)) \<and>
            map_of dct ''pred'' =
              Some (case forward self (model self) data ''P'' of
                      None \<Rightarrow> PyNone | Some v \<Rightarrow> ModelTensor v) \<and>
            map_of dct ''pt'' = Some (RealTensor (pt data)) \<and>
            map_of dct ''sector'' = Some (LongTensor (sector data)) \<and>
            map_of dct ''particle_id'' = Some (LongTensor pid_field) \<and>
            map_of dct ''y'' = Some (RealTensor (data_y data)) \<and>
            map_of dct ''edge_index'' = Some (EdgeIndex (edge_index data)) \<and>
            map_of dct ''node_features'' = Some (Features (data_x data)))"
proof -
  from evaluate_model_Inr [OF assms] obtain data pid_field where
    c: "snd (cut_batch (training_truth_cuts self) data0 apply_truth_cuts) = Inr data" and
    d: "dct = output_dct (squeeze self) (forward self (model self) data) data pid_field"
    by blast
  have k: "map fst dct =
           [''w'', ''x'', ''beta'', ''y'', ''particle_id'', ''track_params'', ''pt'',
            ''reconstructable'', ''pred'', ''edge_index'', ''sector'', ''node_features'']"
    by (simp only: d map_of_output_dct)
  have "snd (cut_batch (training_truth_cuts self) data0 apply_truth_cuts) = Inr data \<and>
            map_of dct ''w'' =
              Some (case forward self (model self) data ''W'' of
                      None \<Rightarrow> PyNone | Some v \<Rightarrow> ModelTensor (squeeze self v)) \<and>
            map_of dct ''x'' =
              Some (case forward self (model self) data ''H'' of
                      None \<Rightarrow> PyNone | Some v \<Rightarrow> ModelTensor v) \<and>
            map_of dct ''beta'' =
              Some (case forward self (model self) data ''B'' of
                      None \<Rightarrow> PyNone | Some v \<Rightarrow> ModelTensor (squeeze self v)) \<and>
            map_of dct ''pred'' =
              Some (case forward self (model self) data ''P'' of
                      None \<Rightarrow> PyNone | Some v \<Rightarrow> ModelTensor v) \<and>
            map_of dct ''pt'' = Some (RealTensor (pt data)) \<and>
            map_of dct ''sector'' = Some (LongTensor (sector data)) \<and>
            map_of dct ''particle_id'' = Some (LongTensor pid_field) \<and>
            map_of dct ''y'' = Some (RealTensor (data_y data)) \<and>
            map_of dct ''edge_index'' = Some (EdgeIndex (edge_index data)) \<and>
            map_of dct ''node_features'' = Some (Features (data_x data))"
    unfolding d map_of_output_dct
    by (simp add: c squeeze_if_defined_def get_if_defined_def split: option.splits)
  with k show ?thesis by blast
qed

lemma bare_trainer_output:
  "evaluate_model bare_trainer example_batch True False =
     ([CallModel],
      Inr [(''w'', PyNone), (''x'', PyNone), (''beta'', PyNone), (''y'', RealTensor [1, 0]),
           (''particle_id'', LongTensor [1, 2, 0]), (''track_params'', RealTensor [1, 1 / 2, 0]),
           (''pt'', RealTensor [1, 1 / 2, 0]), (''reconstructable'', LongTensor [1, 1, 0]),
           (''pred'', PyNone), (''edge_index'', EdgeIndex [(0, 2), (1, 2)]),
           (''sector'', LongTensor [0, 0, 1]), (''node_features'', Features [[0], [1], [2]])])"
  by (simp add: evaluate_model_def cut_batch_def bare_trainer_def example_trainer_def
      example_batch_def tensor_mul_def output_dct_def squeeze_if_defined_def get_if_defined_def)

theorem evaluate_model_keys_present_witness:
  "snd (evaluate_model bare_trainer example_batch True False) =
     Inr [(''w'', PyNone), (''x'', PyNone), (''beta'', PyNone), (''y'', RealTensor [1, 0]),
           (''particle_id'', LongTensor [1, 2, 0]), (''track_params'', RealTensor [1, 1 / 2, 0]),
           (''pt'', RealTensor [1, 1 / 2, 0]), (''reconstructable'', LongTensor [1, 1, 0]),
           (''pred'', PyNone), (''edge_index'', EdgeIndex [(0, 2), (1, 2)]),
           (''sector'', LongTensor [0, 0, 1]), (''node_features'', Features [[0], [1], [2]])] \<and>
   map fst [(''w'', PyNone :: real list pyval), (''x'', PyNone), (''beta'', PyNone),
           (''y'', RealTensor [1, 0]),
           (''particle_id'', LongTensor [1, 2, 0]), (''track_params'', RealTensor [1, 1 / 2, 0]),
           (''pt'', RealTensor [1, 1 / 2, 0]), (''reconstructable'', LongTensor [1, 1, 0]),
           (''pred'', PyNone), (''edge_index'', EdgeIndex [(0, 2), (1, 2)]),
           (''sector'', LongTensor [0, 0, 1]), (''node_features'', Features [[0], [1], [2]])] =
     [''w'', ''x'', ''beta'', ''y'', ''particle_id'', ''track_params'', ''pt'',
      ''reconstructable'', ''pred'', ''edge_index'', ''sector'', ''node_features'']"
proof -
  have e: "snd (evaluate_model bare_trainer example_batch True False) =
     Inr [(''w'', PyNone), (''x'', PyNone), (''beta'', PyNone), (''y'', RealTensor [1, 0]),
           (''particle_id'', LongTensor [1, 2, 0]), (''track_params'', RealTensor [1, 1 / 2, 0]),
           (''pt'', RealTensor [1, 1 / 2, 0]), (''reconstructable'', LongTensor [1, 1, 0]),
           (''pred'', PyNone), (''edge_index'', EdgeIndex [(0, 2), (1, 2)]),
           (''sector'', LongTensor [0, 0, 1]), (''node_features'', Features [[0], [1], [2]])]"
    by (simp add: bare_trainer_output)
  from evaluate_model_keys_present [OF e] show ?thesis using e by simp
qed

text \<open>
  Claim C7 as stated fails: for a model that does not compute W, the key \<open>w\<close> is not
  absent from the returned dictionary; it is present with the value \<^verbatim>\<open>None\<close>.
\<close>

theorem evaluate_model_absent_key_counterexample:
  "forward bare_trainer (model bare_trainer) example_batch ''W'' = None \<and>
   map_of (projr (snd (evaluate_model bare_trainer example_batch True False))) ''w'' =
     Some PyNone"
  by (simp add: bare_trainer_output) (simp add: bare_trainer_def)

section \<open>Properties of the trainer\<close>

















subsection \<open>The batch limit of the training loop\<close>

lemma train_loop_zero: "train_loop (Some 0) bs s = train_loop None bs s"
  by (induction bs arbitrary: s) (simp_all split: sum.splits)

lemma train_loop_limit:
  assumes "1 \<le> n"
  shows "train_loop (Some n) (enumerate k xs) s =
           train_loop None (enumerate k (take (nat n + 1 - k) xs)) s"
proof (induction xs arbitrary: k s)
  case Nil
  show ?case by simp
next
  case (Cons x xs)
  show ?case
  proof (cases "int k > n")
    case True
    then have "nat n + 1 - k = 0" using assms by (simp add: nat_less_iff Suc_le_eq)
    with True assms show ?thesis by simp
  next
    case False
    then have "k \<le> nat n" using assms by (simp add: le_nat_iff)
    then have "nat n + 1 - k = Suc (nat n + 1 - Suc k)" by simp
    then have t: "take (nat n + 1 - k) (x # xs) = x # take (nat n + 1 - Suc k) xs"
      by simp
    show ?thesis
      unfolding t using False assms by (simp add: Cons.IH split: sum.splits)
  qed
qed

lemma train_batch_losses:
  "train_batch s d = Inr s' \<Longrightarrow> length (batch_losses s') = Suc (length (batch_losses s))"
  by (auto simp: train_batch_def split: prod.splits sum.splits)

lemma train_loop_all:
  "train_loop None bs s = Inr s' \<Longrightarrow>
   length (batch_losses s') = length (batch_losses s) + length bs"
proof (induction bs arbitrary: s)
  case Nil
  then show ?case by simp
next
  case (Cons b bs)
  from Cons.prems obtain s1 where b: "train_batch s (snd b) = Inr s1"
    and l: "train_loop None bs s1 = Inr s'"
    by (auto split: sum.splits)
  from Cons.IH [OF l] train_batch_losses [OF b] show ?case by simp
qed

text \<open>
  Claim C10. For \<open>max_batches = n\<close> with \<open>n \<ge> 1\<close>, \<^verbatim>\<open>train_step\<close> does what the
  unlimited loop does on the batches of indices \<open>0\<close> to \<open>n\<close> (the first \<open>n + 1\<close>
  batches of the training loader, or all of them when it has fewer) and then stops: when
  it returns, it has processed \<open>min (n + 1) (length train_loader)\<close> batches. With
  \<open>max_batches = 0\<close> it does what it does with \<^verbatim>\<open>None\<close>: no limit applies, and
  when it returns it has processed every batch of the training loader.
\<close>

theorem train_step_max_batches:
  "(1 \<le> n \<longrightarrow>
      train_step self (Some n) =
        train_loop None (enumerate 0 (take (nat n + 1) (train_loader self)))
          (self\<lparr>batch_losses := []\<rparr>)) \<and>
   (\<forall>s'. 1 \<le> n \<and> train_step self (Some n) = Inr s' \<longrightarrow>
      length (batch_losses s') = min (nat n + 1) (length (train_loader self))) \<and>
   train_step self (Some 0) = train_step self None \<and>
   (\<forall>s'. train_step self None = Inr s' \<longrightarrow>
      length (batch_losses s') = length (train_loader self))"
proof -
  have a: "train_step self (Some n) =
        train_loop None (enumerate 0 (take (nat n + 1) (train_loader self)))
          (self\<lparr>batch_losses := []\<rparr>)" if "1 \<le> n"
    using train_loop_limit [OF that, of 0 "train_loader self"] by (simp add: train_step_def)
  have b: "length (batch_losses s') = min (nat n + 1) (length (train_loader self))"
    if "1 \<le> n" and "train_step self (Some n) = Inr s'" for s'
    using train_loop_all [of "enumerate 0 (take (nat n + 1) (train_loader self))"
        "self\<lparr>batch_losses := []\<rparr>" s'] a that
    by (simp add: min.commute)
  have c: "train_step self (Some 0) = train_step self None"
    by (simp add: train_step_def train_loop_zero)
  have d: "length (batch_losses s') = length (train_loader self)"
    if "train_step self None = Inr s'" for s'
    using train_loop_all [of "enumerate 0 (train_loader self)" "self\<lparr>batch_losses := []\<rparr>" s']
      that
    by (simp add: train_step_def)
  from a b c d show ?thesis by blast
qed

lemma example_train_batch:
  "train_batch ((example_trainer trivial_cuts)\<lparr>calls := cs, batch_losses := bl\<rparr>)
     example_batch =
   Inr ((example_trainer trivial_cuts)
          \<lparr>calls := cs @ [CallGetMasks, CallApplyMask, CallModel],
           batch_losses := bl @ [(Finite 1, [(''edge'', Finite 1)])]\<rparr>)"
proof -
  have g: "get_masks trivial_cuts example_batch = Inr ([True, True, True], [True, True])"
    by (simp add: get_masks_def trivial_cuts_def example_batch_def int_index_def)
  have m: "apply_mask example_batch [True, True, True] [True, True] = Inr example_batch"
    by (simp add: apply_mask_def example_batch_def bool_index_def vectorize_def
        edge_index_mapping_eq)
  have c: "cut_batch trivial_cuts example_batch True =
             ([CallGetMasks, CallApplyMask], Inr example_batch)"
    by (simp add: cut_batch_def g m)
  have t: "training_truth_cuts ((example_trainer trivial_cuts)\<lparr>calls := cs, batch_losses := bl\<rparr>)
             = trivial_cuts"
    by (simp add: example_trainer_def)
  show ?thesis
    unfolding train_batch_def evaluate_model_def t c
    by (simp add: example_trainer_def example_batch_def tensor_mul_def get_batch_losses_def
        individual_losses_def weighted_total_def py_sum_def)
qed

theorem train_step_max_batches_witness:
  "map_sum id batch_losses (train_step (example_trainer trivial_cuts) (Some 1)) =
     Inr [(Finite 1, [(''edge'', Finite 1)]), (Finite 1, [(''edge'', Finite 1)])] \<and>
   map_sum id batch_losses (train_step (example_trainer trivial_cuts) (Some 0)) =
     Inr [(Finite 1, [(''edge'', Finite 1)]), (Finite 1, [(''edge'', Finite 1)]),
          (Finite 1, [(''edge'', Finite 1)])] \<and>
   length (train_loader (example_trainer trivial_cuts)) = 3"
proof -
  have s: "(example_trainer trivial_cuts)\<lparr>batch_losses := []\<rparr> =
           (example_trainer trivial_cuts)\<lparr>calls := [], batch_losses := []\<rparr>"
    by (simp add: example_trainer_def)
  have l: "train_loader (example_trainer trivial_cuts) =
             [example_batch, example_batch, example_batch]"
    by (simp add: example_trainer_def)
  have one: "(1::int) \<le> 1" by simp
  have t: "take (nat 1 + 1) [example_batch, example_batch, example_batch] =
             [example_batch, example_batch]"
    by (simp add: numeral_2_eq_2)
  from train_step_max_batches [of 1 "example_trainer trivial_cuts"]
  have "train_step (example_trainer trivial_cuts) (Some 1) =
          train_loop None (enumerate 0 [example_batch, example_batch])
            ((example_trainer trivial_cuts)\<lparr>calls := [], batch_losses := []\<rparr>)"
    and "train_step (example_trainer trivial_cuts) (Some 0) =
          train_step (example_trainer trivial_cuts) None"
    unfolding l t s using one by blast+
  then show ?thesis
    unfolding train_step_def l s by (simp add: example_train_batch)
qed

section \<open>Properties of the clustering scanner\<close>

lemma get_sector_cached:
  "map_of (graph_to_sector self) i = Some s \<Longrightarrow> get_sector_to_study self i = Inr (s, self)"
  by (simp add: get_sector_to_study_def)

lemma get_sector_Inr:
  assumes "get_sector_to_study self i = Inr (s, self')"
  shows "map_of (graph_to_sector self') i = Some s"
    and "sectors self' = sectors self"
    and "graphs self' = graphs self"
    and "truth self' = truth self"
    and "map_of (graph_to_sector self) j = Some t \<Longrightarrow> map_of (graph_to_sector self') j = Some t"
  using assms
  by (auto simp: get_sector_to_study_def Let_def update_conv' split: option.splits if_splits)

lemma choice_not_background:
  assumes "remove1 (- 1) (np_unique a) \<noteq> []"
  shows "remove1 (- 1) (np_unique a) ! (r mod length (remove1 (- 1) (np_unique a))) \<noteq> - 1"
    and "remove1 (- 1) (np_unique a) ! (r mod length (remove1 (- 1) (np_unique a)))
           \<in> set (nd_items a)"
proof -
  let ?av = "remove1 (- 1) (np_unique a)"
  have d: "distinct (np_unique a)" by (simp add: np_unique_def)
  have "?av ! (r mod length ?av) \<in> set ?av"
    using assms by (intro nth_mem) simp
  also have "set ?av = set (np_unique a) - {- 1}"
    using d by (rule set_remove1_eq)
  finally have "?av ! (r mod length ?av) \<in> set (np_unique a) - {- 1}" .
  then show "?av ! (r mod length ?av) \<noteq> - 1" and "?av ! (r mod length ?av) \<in> set (nd_items a)"
    by (simp_all add: np_unique_def)
qed

lemma get_sector_cache_ok:
  assumes "get_sector_to_study self i = Inr (s, self')" and "cache_ok self"
  shows "cache_ok self'"
proof (cases "map_of (graph_to_sector self) i")
  case (Some c)
  with assms show ?thesis by (simp add: get_sector_to_study_def)
next
  case None
  let ?av = "remove1 (- 1) (np_unique (sectors self ! i))"
  from assms(1) None have i: "i < length (sectors self)" and ne: "?av \<noteq> []"
    and s: "s = ?av ! (rng self (rng_pos self) mod length ?av)"
    and g: "graph_to_sector self' = AList.update i s (graph_to_sector self)"
    and sec: "sectors self' = sectors self"
    by (auto simp: get_sector_to_study_def Let_def split: if_splits)
  from choice_not_background [OF ne, of "rng self (rng_pos self)"] s
  have "s \<noteq> - 1" "s \<in> set (nd_items (sectors self ! i))" by simp_all
  with assms(2) i show ?thesis
    unfolding cache_ok_def g sec by (auto simp: update_conv')
qed

lemma select_sectors_keeps:
  assumes "select_sectors js self = (r, self')"
  shows "sectors self' = sectors self \<and> graphs self' = graphs self \<and> truth self' = truth self \<and>
         (cache_ok self \<longrightarrow> cache_ok self') \<and>
         (\<forall>j t. map_of (graph_to_sector self) j = Some t \<longrightarrow>
                map_of (graph_to_sector self') j = Some t)"
  using assms
proof (induction js arbitrary: self r)
  case Nil
  then show ?case by simp
next
  case (Cons i js)
  show ?case
  proof (cases "get_sector_to_study self i")
    case (Inl e)
    with Cons.prems show ?thesis by simp
  next
    case (Inr p)
    obtain s self1 where p: "p = (s, self1)" by (cases p)
    obtain r1 self2 where l: "select_sectors js self1 = (r1, self2)"
      by (cases "select_sectors js self1")
    from Cons.prems Inr p l have e: "self' = self2" by (auto split: sum.splits)
    from Inr p have g: "get_sector_to_study self i = Inr (s, self1)" by simp
    from l e have l': "select_sectors js self1 = (r1, self')" by simp
    from Cons.IH [OF l'] get_sector_Inr(2-5) [OF g] get_sector_cache_ok [OF g]
    show ?thesis by metis
  qed
qed

lemma select_sectors_repeat:
  assumes "select_sectors js self = (Inr ss, self')"
    and "\<forall>j t. map_of (graph_to_sector self') j = Some t \<longrightarrow>
                map_of (graph_to_sector self2) j = Some t"
  shows "select_sectors js self2 = (Inr ss, self2)"
  using assms
proof (induction js arbitrary: self ss)
  case Nil
  then show ?case by simp
next
  case (Cons i js)
  from Cons.prems(1) obtain s self1 ss1 where
    g: "get_sector_to_study self i = Inr (s, self1)" and
    l: "select_sectors js self1 = (Inr ss1, self')" and
    ss: "ss = s # ss1"
    by (auto split: sum.splits prod.splits)
  have "map_of (graph_to_sector self1) i = Some s"
    using g by (rule get_sector_Inr(1))
  then have "map_of (graph_to_sector self') i = Some s"
    using select_sectors_keeps [OF l] by blast
  then have "map_of (graph_to_sector self2) i = Some s"
    using Cons.prems(2) by blast
  then have "get_sector_to_study self2 i = Inr (s, self2)"
    by (rule get_sector_cached)
  moreover have "select_sectors js self2 = (Inr ss1, self2)"
    using Cons.IH [OF l Cons.prems(2)] .
  ultimately show ?case by (simp add: ss)
qed

text \<open>
  Claim C8. Start from a scanner whose sector memory is empty, as the constructor leaves
  it, and let any calls of the selector happen. If the selector then returns the sector
  \<open>s\<close> for the graph \<open>i\<close>, then after any further calls it returns \<open>s\<close> for \<open>i\<close>
  again and changes nothing; \<open>s\<close> is one of the sector ids of graph \<open>i\<close> and is not
  the background id \<open>-1\<close>. And once a trial has selected its sectors, the next trial
  selects the same sector for every graph.
\<close>

theorem sector_choice_is_cached:
  assumes "graph_to_sector self0 = []"
    and "snd (select_sectors js self0) = self"
    and "get_sector_to_study self i = Inr (s, self1)"
    and "snd (select_sectors ks self1) = self2"
  shows "get_sector_to_study self2 i = Inr (s, self2) \<and>
         s \<noteq> - 1 \<and> i < length (sectors self0) \<and> s \<in> set (nd_items (sectors self0 ! i)) \<and>
         (\<forall>ss self3. objective_sectors self1 = (Inr ss, self3) \<longrightarrow>
            objective_sectors self3 = (Inr ss, self3))"
proof -
  have ok0: "cache_ok self0" using assms(1) by (simp add: cache_ok_def)
  obtain r where r: "select_sectors js self0 = (r, self)"
    using assms(2) by (cases "select_sectors js self0") simp
  obtain r' where r': "select_sectors ks self1 = (r', self2)"
    using assms(4) by (cases "select_sectors ks self1") simp
  from select_sectors_keeps [OF r] ok0
  have ok: "cache_ok self" and sec: "sectors self = sectors self0" by simp_all
  have ok1: "cache_ok self1" using get_sector_cache_ok [OF assms(3) ok] .
  have c1: "map_of (graph_to_sector self1) i = Some s"
    using assms(3) by (rule get_sector_Inr(1))
  then have c2: "map_of (graph_to_sector self2) i = Some s"
    using select_sectors_keeps [OF r'] by blast
  have "i < length (sectors self1) \<and> s \<noteq> - 1 \<and> s \<in> set (nd_items (sectors self1 ! i))"
    using ok1 c1 by (simp add: cache_ok_def)
  then have a: "s \<noteq> - 1 \<and> i < length (sectors self0) \<and> s \<in> set (nd_items (sectors self0 ! i))"
    using get_sector_Inr(2) [OF assms(3)] sec by simp
  have b: "objective_sectors self3 = (Inr ss, self3)"
    if t: "objective_sectors self1 = (Inr ss, self3)" for ss self3
  proof -
    from t have l: "select_sectors [0 ..< min (length (graphs self1)) (length (truth self1))] self1
        = (Inr ss, self3)"
      by (simp add: objective_sectors_def)
    from select_sectors_keeps [OF l]
    have "graphs self3 = graphs self1" "truth self3 = truth self1" by simp_all
    then show ?thesis
      using select_sectors_repeat [OF l, of self3] by (simp add: objective_sectors_def)
  qed
  from get_sector_cached [OF c2] a b show ?thesis by blast
qed

lemma example_get_sector:
  "get_sector_to_study example_scanner 0 =
     Inr (3, example_scanner\<lparr>graph_to_sector := [(0, 3)], rng_pos := 1\<rparr>)"
  by (simp add: get_sector_to_study_def example_scanner_def np_unique_def vector_def
      example_rng_def)

theorem sector_choice_is_cached_witness:
  "graph_to_sector example_scanner = [] \<and>
   snd (select_sectors [] example_scanner) = example_scanner \<and>
   get_sector_to_study example_scanner 0 =
     Inr (3, example_scanner\<lparr>graph_to_sector := [(0, 3)], rng_pos := 1\<rparr>) \<and>
   snd (select_sectors [0] (example_scanner\<lparr>graph_to_sector := [(0, 3)], rng_pos := 1\<rparr>)) =
     example_scanner\<lparr>graph_to_sector := [(0, 3)], rng_pos := 1\<rparr> \<and>
   get_sector_to_study (example_scanner\<lparr>graph_to_sector := [(0, 3)], rng_pos := 1\<rparr>) 0 =
     Inr (3, example_scanner\<lparr>graph_to_sector := [(0, 3)], rng_pos := 1\<rparr>) \<and>
   init_scanner example_graphs example_truth [] (Some example_sectors) example_rng =
     Inr example_scanner"
proof -
  let ?s1 = "example_scanner\<lparr>graph_to_sector := [(0, 3)], rng_pos := 1\<rparr>"
  have a: "graph_to_sector example_scanner = []" by (simp add: example_scanner_def)
  have b: "snd (select_sectors [] example_scanner) = example_scanner" by simp
  have d: "snd (select_sectors [0] ?s1) = ?s1"
    by (simp add: get_sector_to_study_def)
  have i: "init_scanner example_graphs example_truth [] (Some example_sectors) example_rng =
     Inr example_scanner"
    by (simp add: init_scanner_def example_graphs_def example_truth_def example_sectors_def
        example_scanner_def)
  from sector_choice_is_cached [OF a b example_get_sector d]
  show ?thesis using a b d i example_get_sector by simp
qed

text \<open>
  Claim C9 fails on the code. With \<^verbatim>\<open>sectors=None\<close> the constructor evaluates
  \<^verbatim>\<open>np.ones(t, dtype=int)\<close> on each truth vector \<open>t\<close> itself, not on its length,
  so the truth labels are taken as a shape: for the truth vector \<open>[1, 2]\<close> of two hits
  the default sector array has shape \<open>1 \<times> 2\<close> and length 1, not a vector of length 2.
\<close>

theorem default_sectors_take_truth_as_shape:
  "map_sum id (\<lambda>sc. map nd_shape (sectors sc))
     (init_scanner example_graphs example_truth [] None example_rng) = Inr [[1, 2]] \<and>
   map_sum id (\<lambda>sc. map nd_len (sectors sc))
     (init_scanner example_graphs example_truth [] None example_rng) = Inr [Inr 1] \<and>
   map length example_truth = [2]"
  by (simp add: init_scanner_def example_graphs_def example_truth_def np_ones_def nd_len_def)

end
